theory Spec2Isabelle
  imports Complex_Main
begin

section \<open>The dense matrix type of \<^verbatim>\<open>matrix.cpp\<close>\<close>

text \<open>
  A shallow embedding of the class template \<^verbatim>\<open>Matrix<T>\<close>. The element type \<open>T\<close> is a
  type variable; each operation asks only for the operators its C++ body uses
  (\<open>T()\<close> is \<open>0\<close>). Sizes and indices are natural numbers, with the places written out
  where the source computes a size in a type that is too narrow for it: the filled
  constructor takes two \<^verbatim>\<open>unsigned\<close> parameters (32 bits), so that an argument arrives
  modulo \<open>2 ^ 32\<close>, and multiplies them in that type, a product modulo \<open>2 ^ 32\<close>; the loop
  of \<^verbatim>\<open>initRandomQSMatrix\<close> runs to a product of two \<^verbatim>\<open>size_t\<close> values (64 bits). The
  index arithmetic of \<^verbatim>\<open>operator()\<close> and of the loops is modelled as exact.

  \<^item> A failed \<^verbatim>\<open>assert\<close> and an access beyond the end of a \<^verbatim>\<open>std::vector\<close> are values
    of the type \<open>fault\<close>; an operation returns \<open>fault + result\<close>.
  \<^item> \<^verbatim>\<open>assert\<close> is the macro of \<^verbatim>\<open><cassert>\<close>: it checks unless the translation unit is
    compiled with \<^verbatim>\<open>NDEBUG\<close>. Every operation that asserts takes the flag \<open>nd\<close>
    (\<open>True\<close> when \<^verbatim>\<open>NDEBUG\<close> is defined).
  \<^item> A \<^verbatim>\<open>for\<close> loop over \<open>0 \<le> i < n\<close> is \<open>for_loop [0..<n]\<close>, which stops at the first fault.
\<close>

datatype fault = AssertionFailure | OutOfBounds

text \<open>
  Modelled from the spec: the class declaration (\<^verbatim>\<open>matrix.h\<close>) is not among the sources.
  The three members are those the constructors of \<^verbatim>\<open>matrix.cpp\<close> initialise, in that
  order, with the types of the specification's data model: \<open>rows\<close> and \<open>cols\<close> unsigned
  integers, \<open>mat\<close> the row-major sequence of elements.
\<close>

record 'a Matrix =
  rows :: nat
  cols :: nat
  mat :: "'a list"

definition then_do :: "fault + 'a \<Rightarrow> ('a \<Rightarrow> fault + 'b) \<Rightarrow> fault + 'b" where
  "then_do r f = (case r of Inl e \<Rightarrow> Inl e | Inr x \<Rightarrow> f x)"

fun for_loop :: "nat list \<Rightarrow> (nat \<Rightarrow> 's \<Rightarrow> fault + 's) \<Rightarrow> 's \<Rightarrow> fault + 's" where
  "for_loop [] body s = Inr s"
| "for_loop (i # is) body s = then_do (body i s) (for_loop is body)"

definition assert_c :: "bool \<Rightarrow> bool \<Rightarrow> fault + unit" where
  "assert_c nd c = (if nd \<or> c then Inr () else Inl AssertionFailure)"

text \<open>\<^verbatim>\<open>v[i]\<close> on a \<^verbatim>\<open>std::vector\<close>, read and written.\<close>

definition vec_get :: "'a list \<Rightarrow> nat \<Rightarrow> fault + 'a" where
  "vec_get xs i = (if i < length xs then Inr (xs ! i) else Inl OutOfBounds)"

definition vec_set :: "'a list \<Rightarrow> nat \<Rightarrow> 'a \<Rightarrow> fault + 'a list" where
  "vec_set xs i v = (if i < length xs then Inr (xs[i := v]) else Inl OutOfBounds)"

text \<open>The data model's invariant: the storage holds \<open>rows * cols\<close> elements.\<close>

definition storage_ok :: "'a Matrix \<Rightarrow> bool" where
  "storage_ok m \<longleftrightarrow> length (mat m) = rows m * cols m"

text \<open>An operation that keeps the shape and the size of the storage.\<close>

definition same_shape :: "'a Matrix \<Rightarrow> 'a Matrix \<Rightarrow> bool" where
  "same_shape R R' \<longleftrightarrow>
     rows R' = rows R \<and> cols R' = cols R \<and> length (mat R') = length (mat R)"

subsection \<open>Element access\<close>

text \<open>
  Both overloads of \<^verbatim>\<open>operator()\<close> have the body
  \<^verbatim>\<open>assert(row < rows && col < cols); return mat[row * cols + col];\<close>
  \<open>operator_call\<close> is the assertion and the offset; \<open>get_elem\<close> reads through the
  reference and \<open>set_elem\<close> assigns through it.
\<close>

definition operator_call :: "bool \<Rightarrow> 'a Matrix \<Rightarrow> nat \<Rightarrow> nat \<Rightarrow> fault + nat" where
  "operator_call nd m row col =
     then_do (assert_c nd (row < rows m \<and> col < cols m)) (\<lambda>_. Inr (row * cols m + col))"

definition get_elem :: "bool \<Rightarrow> 'a Matrix \<Rightarrow> nat \<Rightarrow> nat \<Rightarrow> fault + 'a" where
  "get_elem nd m row col = then_do (operator_call nd m row col) (vec_get (mat m))"

definition set_elem :: "bool \<Rightarrow> 'a Matrix \<Rightarrow> nat \<Rightarrow> nat \<Rightarrow> 'a \<Rightarrow> fault + 'a Matrix" where
  "set_elem nd m row col v =
     then_do (operator_call nd m row col) (\<lambda>k.
     then_do (vec_set (mat m) k v) (\<lambda>xs. Inr (m\<lparr>mat := xs\<rparr>)))"

text \<open>The two accessors return \<^verbatim>\<open>unsigned\<close>.\<close>

definition get_rows :: "'a Matrix \<Rightarrow> nat" where
  "get_rows m = rows m mod 2 ^ 32"

definition get_cols :: "'a Matrix \<Rightarrow> nat" where
  "get_cols m = cols m mod 2 ^ 32"

subsection \<open>Constructors\<close>

text \<open>
  \<^verbatim>\<open>Matrix(unsigned _rows, unsigned _cols, const T& _initial)\<close>, with the member
  initialisers \<^verbatim>\<open>rows(_rows), cols(_cols), mat(_rows * _cols, _initial)\<close>: the parameters
  are of the type \<^verbatim>\<open>unsigned\<close>, so an argument is converted modulo \<open>2 ^ 32\<close>, and so is
  their product, which wraps around at \<open>2 ^ 32\<close>.
\<close>

definition Matrix_fill :: "nat \<Rightarrow> nat \<Rightarrow> 'a \<Rightarrow> 'a Matrix" where
  "Matrix_fill r c initial =
     (let r32 = r mod 2 ^ 32; c32 = c mod 2 ^ 32
      in \<lparr>rows = r32, cols = c32, mat = replicate ((r32 * c32) mod 2 ^ 32) initial\<rparr>)"


text \<open>
  \<^verbatim>\<open>std::copy(first, last, out)\<close> into a vector, starting at offset \<open>k\<close>: it writes
  \<open>length src\<close> elements and must stay inside the destination.
\<close>

definition copy_into :: "'a list \<Rightarrow> 'a list \<Rightarrow> nat \<Rightarrow> fault + 'a list" where
  "copy_into src dst k =
     (if k + length src \<le> length dst
      then Inr (take k dst @ src @ drop (k + length src) dst)
      else Inl OutOfBounds)"

text \<open>\<^verbatim>\<open>Matrix(const std::vector<std::vector<T>>& _mat)\<close>\<close>

definition Matrix_nested :: "bool \<Rightarrow> ('a::zero) list list \<Rightarrow> fault + 'a Matrix" where
  "Matrix_nested nd rws =
     (let r = length rws;
          c = (if rws = [] then 0 else length (rws ! 0))
      in then_do
           (for_loop [0..<r]
              (\<lambda>i xs. then_do (assert_c nd (length (rws ! i) = c))
                         (\<lambda>_. copy_into (rws ! i) xs (i * c)))
              (replicate (r * c) 0))
           (\<lambda>xs. Inr \<lparr>rows = r, cols = c, mat = xs\<rparr>))"

text \<open>\<^verbatim>\<open>Matrix(const std::vector<T>& _mat, size_t _rows, size_t _cols)\<close>\<close>

definition Matrix_flat :: "'a list \<Rightarrow> nat \<Rightarrow> nat \<Rightarrow> 'a Matrix" where
  "Matrix_flat xs r c = \<lparr>rows = r, cols = c, mat = xs\<rparr>"

text \<open>
  \<^verbatim>\<open>initRandomQSMatrix\<close>. The generator \<^verbatim>\<open>std::mt19937\<close> and the distribution
  \<^verbatim>\<open>std::uniform_real_distribution<T>\<close> are library code: \<open>draw a b gen\<close> stands for
  \<^verbatim>\<open>d(gen)\<close> with \<^verbatim>\<open>d(a, b)\<close>, returning the value and the generator's next state. The
  generator is a function-local static, so its state outlives the call: the function
  takes the state and returns the new one. The shape arrives as two \<^verbatim>\<open>size_t\<close> values:
  the filled constructor converts them to \<^verbatim>\<open>unsigned\<close>, while the loop runs to their
  product in \<^verbatim>\<open>size_t\<close>. \<open>random_calls\<close> is a sequence of calls in one process, each
  given the shape and the weight, starting from the state of \<^verbatim>\<open>gen{42}\<close>.
\<close>

definition initRandomQSMatrix ::
  "('a \<Rightarrow> 'a \<Rightarrow> 'g \<Rightarrow> 'a \<times> 'g) \<Rightarrow> nat \<Rightarrow> nat \<Rightarrow> ('a::{zero,uminus}) \<Rightarrow> 'g
     \<Rightarrow> fault + ('a Matrix \<times> 'g)" where
  "initRandomQSMatrix draw r c maxWeight gen =
     for_loop [0..<(r * c) mod 2 ^ 64]
       (\<lambda>i (my_matrix, gen).
          (let (x, gen') = draw (- maxWeight) maxWeight gen
           in then_do (vec_set (mat my_matrix) i x)
                (\<lambda>xs. Inr (my_matrix\<lparr>mat := xs\<rparr>, gen'))))
       (Matrix_fill r c 0, gen)"


text \<open>The next \<open>n\<close> values of the stream, and the state behind them.\<close>

fun draws :: "('a \<Rightarrow> 'a \<Rightarrow> 'g \<Rightarrow> 'a \<times> 'g) \<Rightarrow> 'a \<Rightarrow> 'a \<Rightarrow> nat \<Rightarrow> 'g \<Rightarrow> 'a list \<times> 'g" where
  "draws draw a b 0 gen = ([], gen)"
| "draws draw a b (Suc n) gen =
     (let (x, gen1) = draw a b gen;
          (xs, gen2) = draws draw a b n gen1
      in (x # xs, gen2))"

text \<open>
  Copy construction copies the three members. Move construction takes the storage and
  resets the source's shape; the result is the new object paired with the source as
  the constructor leaves it (a \<^verbatim>\<open>std::vector\<close> that was moved from is empty).
\<close>

definition Matrix_copy :: "'a Matrix \<Rightarrow> 'a Matrix" where
  "Matrix_copy rhs = \<lparr>rows = rows rhs, cols = cols rhs, mat = mat rhs\<rparr>"

definition Matrix_move :: "'a Matrix \<Rightarrow> 'a Matrix \<times> 'a Matrix" where
  "Matrix_move rhs =
     (let new = \<lparr>rows = rows rhs, cols = cols rhs, mat = mat rhs\<rparr>;
          rhs1 = rhs\<lparr>mat := []\<rparr>;
          rhs2 = rhs1\<lparr>rows := 0\<rparr>;
          rhs3 = rhs2\<lparr>cols := 0\<rparr>
      in (new, rhs3))"

subsection \<open>Assignment\<close>

text \<open>
  Both assignment operators compare \<^verbatim>\<open>this\<close> with \<^verbatim>\<open>&rhs\<close>, so they are modelled on a
  store of objects: an address is a natural number and the two operands are addresses.
\<close>

type_synonym 'a store = "nat \<Rightarrow> 'a Matrix"

definition copy_assign :: "'a store \<Rightarrow> nat \<Rightarrow> nat \<Rightarrow> 'a store" where
  "copy_assign st this rhs =
     (if this = rhs then st
      else
        (let st1 = st(this := (st this)\<lparr>rows := rows (st rhs)\<rparr>);
             st2 = st1(this := (st1 this)\<lparr>cols := cols (st1 rhs)\<rparr>);
             st3 = st2(this := (st2 this)\<lparr>mat := mat (st2 rhs)\<rparr>)
         in st3))"

definition move_assign :: "'a store \<Rightarrow> nat \<Rightarrow> nat \<Rightarrow> 'a store" where
  "move_assign st this rhs =
     (if this \<noteq> rhs then
        (let old_rows = rows (st rhs);
             st1 = st(rhs := (st rhs)\<lparr>rows := 0\<rparr>);
             st2 = st1(this := (st1 this)\<lparr>rows := old_rows\<rparr>);
             old_cols = cols (st2 rhs);
             st3 = st2(rhs := (st2 rhs)\<lparr>cols := 0\<rparr>);
             st4 = st3(this := (st3 this)\<lparr>cols := old_cols\<rparr>);
             st5 = st4(this := (st4 this)\<lparr>mat := mat (st4 rhs)\<rparr>);
             st6 = st5(rhs := (st5 rhs)\<lparr>mat := []\<rparr>)
         in st6)
      else st)"

subsection \<open>Elementwise arithmetic and broadcasting\<close>

text \<open>
  \<^verbatim>\<open>std::transform\<close>, with one and with two input ranges. The iterators advance
  together; the output keeps what lies behind the last element written.
\<close>

fun transform_unary :: "('a \<Rightarrow> 'c) \<Rightarrow> 'a list \<Rightarrow> 'c list \<Rightarrow> fault + 'c list" where
  "transform_unary f [] out = Inr out"
| "transform_unary f (x # xs) (z # out) =
     then_do (transform_unary f xs out) (\<lambda>r. Inr (f x # r))"
| "transform_unary f (x # xs) [] = Inl OutOfBounds"

fun transform_binary ::
  "('a \<Rightarrow> 'b \<Rightarrow> 'c) \<Rightarrow> 'a list \<Rightarrow> 'b list \<Rightarrow> 'c list \<Rightarrow> fault + 'c list" where
  "transform_binary f [] ys out = Inr out"
| "transform_binary f (x # xs) (y # ys) (z # out) =
     then_do (transform_binary f xs ys out) (\<lambda>r. Inr (f x y # r))"
| "transform_binary f (x # xs) ys out = Inl OutOfBounds"

text \<open>
  \<^verbatim>\<open>operator+(const Matrix<T>&)\<close>. In \<^verbatim>\<open>result(i, j) = a + b\<close> the right side is
  evaluated first, then the reference \<^verbatim>\<open>result(i, j)\<close>, then the assignment.
\<close>

definition op_plus :: "bool \<Rightarrow> ('a::{zero,plus}) Matrix \<Rightarrow> 'a Matrix \<Rightarrow> fault + 'a Matrix" where
  "op_plus nd this rhs =
     (if rows this = rows rhs \<and> cols this = cols rhs then
        (let result = Matrix_fill (rows this) (cols this) 0
         in then_do (transform_binary (+) (mat this) (mat rhs) (mat result))
              (\<lambda>xs. Inr (result\<lparr>mat := xs\<rparr>)))
      else if rows rhs = 1 \<and> cols rhs = cols this then
        for_loop [0..<rows this]
          (\<lambda>i. for_loop [0..<cols this]
             (\<lambda>j result.
                then_do (get_elem nd this i j) (\<lambda>a.
                then_do (get_elem nd rhs 0 j) (\<lambda>b.
                set_elem nd result i j (a + b)))))
          (Matrix_fill (rows this) (cols this) 0)
      else if rows this = 1 \<and> cols this = cols rhs then
        for_loop [0..<rows rhs]
          (\<lambda>i. for_loop [0..<cols this]
             (\<lambda>j result.
                then_do (get_elem nd this 0 j) (\<lambda>a.
                then_do (get_elem nd rhs i j) (\<lambda>b.
                set_elem nd result i j (a + b)))))
          (Matrix_fill (rows rhs) (cols this) 0)
      else
        then_do (assert_c nd False) (\<lambda>_. Inr (Matrix_fill 0 0 0)))"

text \<open>
  The compound assignments update \<^verbatim>\<open>mat[i]\<close> for \<open>i < rows * cols\<close>. Each index is
  written once, after it is read, so reading \<open>rhs\<close> as it was at the call is also right
  when \<open>rhs\<close> is the object itself.
\<close>

definition compound_assign ::
  "('a \<Rightarrow> 'a \<Rightarrow> 'a) \<Rightarrow> 'a Matrix \<Rightarrow> 'a list \<Rightarrow> fault + 'a Matrix" where
  "compound_assign f this ys =
     for_loop [0..<rows this * cols this]
       (\<lambda>i self.
          then_do (vec_get ys i) (\<lambda>b.
          then_do (vec_get (mat self) i) (\<lambda>a.
          then_do (vec_set (mat self) i (f a b)) (\<lambda>xs. Inr (self\<lparr>mat := xs\<rparr>)))))
       this"

definition op_plus_assign :: "bool \<Rightarrow> ('a::plus) Matrix \<Rightarrow> 'a Matrix \<Rightarrow> fault + 'a Matrix" where
  "op_plus_assign nd this rhs =
     then_do (assert_c nd (rows this = rows rhs \<and> cols this = cols rhs))
       (\<lambda>_. compound_assign (+) this (mat rhs))"

definition op_minus :: "bool \<Rightarrow> ('a::{zero,minus}) Matrix \<Rightarrow> 'a Matrix \<Rightarrow> fault + 'a Matrix" where
  "op_minus nd this rhs =
     then_do (assert_c nd (rows this = rows rhs \<and> cols this = cols rhs)) (\<lambda>_.
       (let result = Matrix_fill (rows this) (cols this) 0
        in then_do (transform_binary (-) (mat this) (mat rhs) (mat result))
             (\<lambda>xs. Inr (result\<lparr>mat := xs\<rparr>))))"

definition op_minus_assign :: "bool \<Rightarrow> ('a::minus) Matrix \<Rightarrow> 'a Matrix \<Rightarrow> fault + 'a Matrix" where
  "op_minus_assign nd this rhs =
     then_do (assert_c nd (rows this = rows rhs \<and> cols this = cols rhs))
       (\<lambda>_. compound_assign (-) this (mat rhs))"

definition hadamardMultiplication ::
  "bool \<Rightarrow> ('a::{zero,times}) Matrix \<Rightarrow> 'a Matrix \<Rightarrow> fault + 'a Matrix" where
  "hadamardMultiplication nd this rhs =
     then_do (assert_c nd (rows this = rows rhs \<and> cols this = cols rhs)) (\<lambda>_.
       (let result = Matrix_fill (rows this) (cols this) 0
        in then_do (transform_binary (*) (mat this) (mat rhs) (mat result))
             (\<lambda>xs. Inr (result\<lparr>mat := xs\<rparr>))))"

definition hadamardMultiplicationInPlace ::
  "bool \<Rightarrow> ('a::times) Matrix \<Rightarrow> 'a Matrix \<Rightarrow> fault + 'a Matrix" where
  "hadamardMultiplicationInPlace nd this rhs =
     then_do (assert_c nd (rows this = rows rhs \<and> cols this = cols rhs))
       (\<lambda>_. compound_assign (*) this (mat rhs))"

subsection \<open>Matrix product\<close>

text \<open>
  \<^verbatim>\<open>operator*(const Matrix<T>&)\<close>: the loops run over \<open>i\<close>, then \<open>k\<close>, then \<open>j\<close>, and
  the innermost one indexes both vectors directly.
\<close>

definition op_times ::
  "bool \<Rightarrow> ('a::{zero,plus,times}) Matrix \<Rightarrow> 'a Matrix \<Rightarrow> fault + 'a Matrix" where
  "op_times nd this rhs =
     then_do (assert_c nd (cols this = rows rhs)) (\<lambda>_.
       for_loop [0..<rows this]
         (\<lambda>i. for_loop [0..<cols this]
            (\<lambda>k result.
               then_do (get_elem nd this i k) (\<lambda>temp.
                 (let rhs_offset = k * cols rhs;
                      result_offset = i * cols result
                  in for_loop [0..<cols rhs]
                       (\<lambda>j result.
                          then_do (vec_get (mat result) (result_offset + j)) (\<lambda>old.
                          then_do (vec_get (mat rhs) (rhs_offset + j)) (\<lambda>b.
                          then_do (vec_set (mat result) (result_offset + j) (old + temp * b))
                            (\<lambda>xs. Inr (result\<lparr>mat := xs\<rparr>)))))
                       result))))
         (Matrix_fill (rows this) (cols rhs) 0))"

text \<open>
  \<^verbatim>\<open>operator*=\<close> move-assigns the temporary \<^verbatim>\<open>(*this) * rhs\<close> to \<^verbatim>\<open>*this\<close>; the temporary
  is never \<^verbatim>\<open>*this\<close>, so the new value of the object is the product.
\<close>

definition op_times_assign ::
  "bool \<Rightarrow> ('a::{zero,plus,times}) Matrix \<Rightarrow> 'a Matrix \<Rightarrow> fault + 'a Matrix" where
  "op_times_assign nd this rhs = op_times nd this rhs"

text \<open>
  The reference the product is compared with: the loops in the order \<open>i\<close>, \<open>j\<close>, \<open>k\<close>,
  each element the inner product of a row of the left operand and a column of the
  right one, summed from \<open>k = 0\<close> upwards.
\<close>

definition inner_product ::
  "('a::{zero,plus,times}) Matrix \<Rightarrow> 'a Matrix \<Rightarrow> nat \<Rightarrow> nat \<Rightarrow> nat \<Rightarrow> 'a" where
  "inner_product a b i j n =
     foldl (\<lambda>acc k. acc + mat a ! (i * cols a + k) * mat b ! (k * cols b + j)) 0 [0..<n]"


text \<open>
  \<^verbatim>\<open>operator*(const std::vector<T>&)\<close>, a non-const member: the object is part of the
  loops' state and is returned with the result.
\<close>

definition op_times_vec ::
  "bool \<Rightarrow> ('a::{zero,plus,times}) Matrix \<Rightarrow> 'a list \<Rightarrow> fault + ('a Matrix \<times> 'a list)" where
  "op_times_vec nd this rhs =
     then_do (assert_c nd (length rhs = cols this)) (\<lambda>_.
       for_loop [0..<rows this]
         (\<lambda>i (self, result).
            then_do
              (for_loop [0..<cols self]
                 (\<lambda>j (self, sum).
                    then_do (operator_call nd self i j) (\<lambda>k.
                    then_do (vec_get (mat self) k) (\<lambda>a.
                    then_do (vec_get rhs j) (\<lambda>b. Inr (self, sum + a * b)))))
                 (self, 0))
              (\<lambda>(self, sum).
                 then_do (vec_set result i sum) (\<lambda>result'. Inr (self, result'))))
         (this, replicate (rows this) 0))"

subsection \<open>Transpose\<close>

definition Matrix_transpose :: "bool \<Rightarrow> ('a::zero) Matrix \<Rightarrow> fault + 'a Matrix" where
  "Matrix_transpose nd this =
     for_loop [0..<rows this]
       (\<lambda>i. for_loop [0..<cols this]
          (\<lambda>j result.
             then_do (get_elem nd this i j) (\<lambda>v. set_elem nd result j i v)))
       (Matrix_fill (cols this) (rows this) 0)"

definition transpose_in_place :: "bool \<Rightarrow> ('a::zero) Matrix \<Rightarrow> fault + 'a Matrix" where
  "transpose_in_place nd this = Matrix_transpose nd this"

subsection \<open>Scalar and component-wise operations\<close>

text \<open>
  The four scalar operators and \<^verbatim>\<open>component_wise_transformation\<close> are one
  \<^verbatim>\<open>std::transform\<close> into a fresh matrix of the same shape. The quotient is the element
  type's own; the model says nothing about a zero divisor.
\<close>

definition component_wise_transformation ::
  "('a \<Rightarrow> 'a) \<Rightarrow> ('a::zero) Matrix \<Rightarrow> fault + 'a Matrix" where
  "component_wise_transformation transformation this =
     (let result = Matrix_fill (rows this) (cols this) 0
      in then_do (transform_unary transformation (mat this) (mat result))
           (\<lambda>xs. Inr (result\<lparr>mat := xs\<rparr>)))"

definition component_wise_transformation_in_place ::
  "('a \<Rightarrow> 'a) \<Rightarrow> 'a Matrix \<Rightarrow> fault + 'a Matrix" where
  "component_wise_transformation_in_place transformation this =
     then_do (transform_unary transformation (mat this) (mat this))
       (\<lambda>xs. Inr (this\<lparr>mat := xs\<rparr>))"

definition op_plus_scalar :: "('a::{zero,plus}) Matrix \<Rightarrow> 'a \<Rightarrow> fault + 'a Matrix" where
  "op_plus_scalar this rhs = component_wise_transformation (\<lambda>val. val + rhs) this"

definition op_minus_scalar :: "('a::{zero,minus}) Matrix \<Rightarrow> 'a \<Rightarrow> fault + 'a Matrix" where
  "op_minus_scalar this rhs = component_wise_transformation (\<lambda>val. val - rhs) this"

definition op_times_scalar :: "('a::{zero,times}) Matrix \<Rightarrow> 'a \<Rightarrow> fault + 'a Matrix" where
  "op_times_scalar this rhs = component_wise_transformation (\<lambda>val. val * rhs) this"

definition op_div_scalar :: "('a::{zero,divide}) Matrix \<Rightarrow> 'a \<Rightarrow> fault + 'a Matrix" where
  "op_div_scalar this rhs = component_wise_transformation (\<lambda>val. divide val rhs) this"

definition op_times_assign_scalar :: "('a::times) Matrix \<Rightarrow> 'a \<Rightarrow> fault + 'a Matrix" where
  "op_times_assign_scalar this rhs =
     for_loop [0..<rows this * cols this]
       (\<lambda>i self.
          then_do (vec_get (mat self) i) (\<lambda>a.
          then_do (vec_set (mat self) i (a * rhs)) (\<lambda>xs. Inr (self\<lparr>mat := xs\<rparr>))))
       this"

subsection \<open>The diagonal\<close>

text \<open>
  \<^verbatim>\<open>diag_vec\<close> is a non-const member and reads through the non-const \<^verbatim>\<open>operator()\<close>. The
  loop state is the object itself together with the result vector, and the object is
  returned with the result.
\<close>

definition diag_vec :: "bool \<Rightarrow> ('a::zero) Matrix \<Rightarrow> fault + ('a Matrix \<times> 'a list)" where
  "diag_vec nd m =
     (let n = (if rows m < cols m then rows m else cols m)
      in for_loop [0..<n]
           (\<lambda>i (self, result).
              then_do (operator_call nd self i i) (\<lambda>k.
              then_do (vec_get (mat self) k) (\<lambda>v.
              then_do (vec_set result i v) (\<lambda>result'. Inr (self, result')))))
           (m, replicate n 0))"

subsection \<open>The matrices of the interface\<close>

text \<open>
  The matrices a client can hold: those the constructors return (the flat-sequence
  constructor being given \<open>rows * cols\<close> elements; the filled constructor and random
  initialization a shape of fewer than \<open>2 ^ 32\<close> elements) and those any operation
  returns or leaves behind when applied to such matrices (the product having fewer
  than \<open>2 ^ 32\<close> elements).
\<close>

inductive produced ::
  "bool \<Rightarrow> ('a \<Rightarrow> 'a \<Rightarrow> 'g \<Rightarrow> 'a \<times> 'g) \<Rightarrow> ('a::{zero,uminus,plus,minus,times,divide}) Matrix \<Rightarrow> bool"
  for nd :: bool and draw :: "'a \<Rightarrow> 'a \<Rightarrow> 'g \<Rightarrow> 'a \<times> 'g" where
  by_fill: "r * c < 2 ^ 32 \<Longrightarrow> produced nd draw (Matrix_fill r c v)"
| by_nested: "Matrix_nested nd rws = Inr m \<Longrightarrow> produced nd draw m"
| by_flat: "length xs = r * c \<Longrightarrow> produced nd draw (Matrix_flat xs r c)"
| by_random:
    "r * c < 2 ^ 32 \<Longrightarrow> initRandomQSMatrix draw r c w gen = Inr (m, gen')
     \<Longrightarrow> produced nd draw m"
| by_copy: "produced nd draw a \<Longrightarrow> produced nd draw (Matrix_copy a)"
| by_move: "produced nd draw a \<Longrightarrow> produced nd draw (fst (Matrix_move a))"
| moved_from: "produced nd draw a \<Longrightarrow> produced nd draw (snd (Matrix_move a))"
| by_copy_assign:
    "(\<And>q. produced nd draw (st q)) \<Longrightarrow> produced nd draw (copy_assign st this rhs p)"
| by_move_assign:
    "(\<And>q. produced nd draw (st q)) \<Longrightarrow> produced nd draw (move_assign st this rhs p)"
| by_set_elem:
    "produced nd draw a \<Longrightarrow> set_elem nd a row col v = Inr m \<Longrightarrow> produced nd draw m"
| by_plus:
    "produced nd draw a \<Longrightarrow> produced nd draw b \<Longrightarrow> op_plus nd a b = Inr m
     \<Longrightarrow> produced nd draw m"
| by_plus_assign:
    "produced nd draw a \<Longrightarrow> produced nd draw b \<Longrightarrow> op_plus_assign nd a b = Inr m
     \<Longrightarrow> produced nd draw m"
| by_minus:
    "produced nd draw a \<Longrightarrow> produced nd draw b \<Longrightarrow> op_minus nd a b = Inr m
     \<Longrightarrow> produced nd draw m"
| by_minus_assign:
    "produced nd draw a \<Longrightarrow> produced nd draw b \<Longrightarrow> op_minus_assign nd a b = Inr m
     \<Longrightarrow> produced nd draw m"
| by_hadamard:
    "produced nd draw a \<Longrightarrow> produced nd draw b \<Longrightarrow> hadamardMultiplication nd a b = Inr m
     \<Longrightarrow> produced nd draw m"
| by_hadamard_in_place:
    "produced nd draw a \<Longrightarrow> produced nd draw b
     \<Longrightarrow> hadamardMultiplicationInPlace nd a b = Inr m \<Longrightarrow> produced nd draw m"
| by_times:
    "produced nd draw a \<Longrightarrow> produced nd draw b \<Longrightarrow> rows a * cols b < 2 ^ 32
     \<Longrightarrow> op_times nd a b = Inr m \<Longrightarrow> produced nd draw m"
| by_times_assign:
    "produced nd draw a \<Longrightarrow> produced nd draw b \<Longrightarrow> rows a * cols b < 2 ^ 32
     \<Longrightarrow> op_times_assign nd a b = Inr m \<Longrightarrow> produced nd draw m"
| by_times_vec:
    "produced nd draw a \<Longrightarrow> op_times_vec nd a xs = Inr (m, ys) \<Longrightarrow> produced nd draw m"
| by_diag_vec:
    "produced nd draw a \<Longrightarrow> diag_vec nd a = Inr (m, ys) \<Longrightarrow> produced nd draw m"
| by_transpose:
    "produced nd draw a \<Longrightarrow> Matrix_transpose nd a = Inr m \<Longrightarrow> produced nd draw m"
| by_transpose_in_place:
    "produced nd draw a \<Longrightarrow> transpose_in_place nd a = Inr m \<Longrightarrow> produced nd draw m"
| by_plus_scalar:
    "produced nd draw a \<Longrightarrow> op_plus_scalar a x = Inr m \<Longrightarrow> produced nd draw m"
| by_minus_scalar:
    "produced nd draw a \<Longrightarrow> op_minus_scalar a x = Inr m \<Longrightarrow> produced nd draw m"
| by_times_scalar:
    "produced nd draw a \<Longrightarrow> op_times_scalar a x = Inr m \<Longrightarrow> produced nd draw m"
| by_div_scalar:
    "produced nd draw a \<Longrightarrow> op_div_scalar a x = Inr m \<Longrightarrow> produced nd draw m"
| by_times_assign_scalar:
    "produced nd draw a \<Longrightarrow> op_times_assign_scalar a x = Inr m \<Longrightarrow> produced nd draw m"
| by_transformation:
    "produced nd draw a \<Longrightarrow> component_wise_transformation f a = Inr m
     \<Longrightarrow> produced nd draw m"
| by_transformation_in_place:
    "produced nd draw a \<Longrightarrow> component_wise_transformation_in_place f a = Inr m
     \<Longrightarrow> produced nd draw m"

section \<open>Basic facts\<close>

lemma then_do_Inl [simp]: "then_do (Inl e) f = Inl e"
  by (simp add: then_do_def)

lemma then_do_Inr [simp]: "then_do (Inr x) f = f x"
  by (simp add: then_do_def)

lemma for_loop_append:
  "for_loop (xs @ ys) body s = then_do (for_loop xs body s) (for_loop ys body)"
  by (induction xs arbitrary: s) (auto simp: then_do_def split: sum.splits)

text \<open>
  The loop rule: an invariant \<open>I k\<close> that holds before iteration \<open>k\<close>, with a body that
  does not fault under it, holds at \<open>n\<close> after the loop, and the loop does not fault.
\<close>

lemma for_loop_rule:
  assumes "I 0 s"
    and "\<And>k t. k < n \<Longrightarrow> I k t \<Longrightarrow> \<exists>t'. body k t = Inr t' \<and> I (Suc k) t'"
  shows "\<exists>t. for_loop [0..<n] body s = Inr t \<and> I n t"
  using assms(2)
proof (induction n)
  case 0
  show ?case using assms(1) by simp
next
  case (Suc n)
  have "\<exists>t. for_loop [0..<n] body s = Inr t \<and> I n t"
    by (rule Suc.IH) (simp add: Suc.prems)
  then obtain t where t: "for_loop [0..<n] body s = Inr t" "I n t"
    by blast
  from Suc.prems [of n t] t(2) obtain t' where "body n t = Inr t'" "I (Suc n) t'"
    by auto
  with t(1) show ?case
    by (simp add: for_loop_append)
qed

section \<open>Element access inside the shape\<close>

lemma offset_in_range: "i < r \<Longrightarrow> j < c \<Longrightarrow> i * c + j < r * (c::nat)"
proof -
  assume a: "i < r" "j < c"
  have "i * c + j < Suc i * c" using a(2) by simp
  also have "\<dots> \<le> r * c" using a(1) by (intro mult_le_mono1) simp
  finally show ?thesis .
qed

lemma operator_call_ok:
  "row < rows m \<Longrightarrow> col < cols m \<Longrightarrow> operator_call nd m row col = Inr (row * cols m + col)"
  by (simp add: operator_call_def assert_c_def)

lemma get_elem_ok:
  "storage_ok m \<Longrightarrow> row < rows m \<Longrightarrow> col < cols m \<Longrightarrow>
   get_elem nd m row col = Inr (mat m ! (row * cols m + col))"
  by (simp add: get_elem_def operator_call_ok vec_get_def storage_ok_def offset_in_range)

section \<open>The diagonal\<close>

lemma diag_vec_value:
  assumes "storage_ok m"
  shows "diag_vec nd m =
         Inr (m, map (\<lambda>i. mat m ! (i * cols m + i)) [0..<min (rows m) (cols m)])"
proof -
  define n where "n = (if rows m < cols m then rows m else cols m)"
  define body where "body = (\<lambda>i (self :: 'a Matrix, result).
              then_do (operator_call nd self i i) (\<lambda>k.
              then_do (vec_get (mat self) k) (\<lambda>v.
              then_do (vec_set result i v) (\<lambda>result'. Inr (self, result')))))"
  define I where "I = (\<lambda>k (self, res). self = m \<and> length res = n \<and>
                        (\<forall>i<k. res ! i = mat m ! (i * cols m + i)))"
  have n: "n = min (rows m) (cols m)" by (simp add: n_def min_def)
  have "\<exists>t. for_loop [0..<n] body (m, replicate n 0) = Inr t \<and> I n t"
  proof (rule for_loop_rule)
    show "I 0 (m, replicate n 0)" by (simp add: I_def)
  next
    fix k t assume k: "k < n" and t: "I k t"
    obtain self res where [simp]: "t = (self, res)" by (cases t)
    from t have self: "self = m" and len: "length res = n"
      and old: "\<forall>i<k. res ! i = mat m ! (i * cols m + i)" by (simp_all add: I_def)
    from k n have kr: "k < rows m" and kc: "k < cols m" by simp_all
    have "k * cols m + k < length (mat m)"
      using assms offset_in_range [OF kr kc] by (simp add: storage_ok_def)
    then have "body k t = Inr (m, res[k := mat m ! (k * cols m + k)])"
      using k len by (simp add: body_def self operator_call_ok kr kc vec_get_def vec_set_def)
    moreover have "I (Suc k) (m, res[k := mat m ! (k * cols m + k)])"
      using old len k by (auto simp: I_def less_Suc_eq nth_list_update)
    ultimately show "\<exists>t'. body k t = Inr t' \<and> I (Suc k) t'" by blast
  qed
  then obtain res where r: "for_loop [0..<n] body (m, replicate n 0) = Inr (m, res)"
    and len: "length res = n" and el: "\<forall>i<n. res ! i = mat m ! (i * cols m + i)"
    by (auto simp: I_def)
  have "res = map (\<lambda>i. mat m ! (i * cols m + i)) [0..<n]"
    using len el by (intro nth_equalityI) simp_all
  with r show ?thesis
    unfolding diag_vec_def Let_def n_def [symmetric] body_def [symmetric] by (simp add: n)
qed

lemma diag_vec_example:
  "then_do (Matrix_nested nd [[1, 2, 3], [4, 5, 6 :: int]]) (diag_vec nd) =
   Inr (\<lparr>rows = 2, cols = 3, mat = [1, 2, 3, 4, 5, 6]\<rparr>, [1, 5])"
  by (simp add: Matrix_nested_def assert_c_def copy_into_def upt_rec diag_vec_def
      operator_call_def vec_get_def vec_set_def)

text \<open>
  Claim C8. For a matrix of shape \<open>(rows, cols)\<close> whose storage holds \<open>rows * cols\<close>
  elements, \<open>diag_vec\<close> returns a sequence of length \<open>min rows cols\<close> whose element \<open>i\<close>
  is the matrix element at \<open>(i, i)\<close>; on the matrix built from the rows \<open>[1,2,3]\<close> and
  \<open>[4,5,6]\<close> it returns \<open>[1,5]\<close>.
\<close>

theorem diag_vec_main_diagonal:
  "(storage_ok m \<longrightarrow>
      (\<exists>d. diag_vec nd m = Inr (m, d) \<and> length d = min (rows m) (cols m) \<and>
           (\<forall>i<min (rows m) (cols m). get_elem nd m i i = Inr (d ! i)))) \<and>
   then_do (Matrix_nested nd [[1, 2, 3], [4, 5, 6 :: int]])
     (\<lambda>a. then_do (diag_vec nd a) (\<lambda>(a', d). Inr d)) = Inr [1, 5]"
proof (intro conjI impI)
  assume ok: "storage_ok m"
  let ?d = "map (\<lambda>i. mat m ! (i * cols m + i)) [0..<min (rows m) (cols m)]"
  have "diag_vec nd m = Inr (m, ?d)"
    by (rule diag_vec_value [OF ok])
  moreover have "length ?d = min (rows m) (cols m)"
    by simp
  moreover have "\<forall>i<min (rows m) (cols m). get_elem nd m i i = Inr (?d ! i)"
    by (simp add: get_elem_ok [OF ok])
  ultimately show "\<exists>d. diag_vec nd m = Inr (m, d) \<and> length d = min (rows m) (cols m) \<and>
           (\<forall>i<min (rows m) (cols m). get_elem nd m i i = Inr (d ! i))"
    by blast
next
  have "Matrix_nested nd [[1, 2, 3], [4, 5, 6 :: int]] =
        Inr \<lparr>rows = 2, cols = 3, mat = [1, 2, 3, 4, 5, 6]\<rparr>"
    by (simp add: Matrix_nested_def assert_c_def copy_into_def upt_rec)
  then show "then_do (Matrix_nested nd [[1, 2, 3], [4, 5, 6 :: int]])
     (\<lambda>a. then_do (diag_vec nd a) (\<lambda>(a', d). Inr d)) = Inr [1, 5]"
    using diag_vec_example [of nd] by simp
qed

theorem diag_vec_main_diagonal_witness:
  "storage_ok \<lparr>rows = 2, cols = 2, mat = [7, 8, 9, 10 :: int]\<rparr> \<and>
   (\<exists>d. diag_vec False \<lparr>rows = 2, cols = 2, mat = [7, 8, 9, 10 :: int]\<rparr> =
          Inr (\<lparr>rows = 2, cols = 2, mat = [7, 8, 9, 10]\<rparr>, d) \<and> length d = 2 \<and>
        (\<forall>i<2. get_elem False \<lparr>rows = 2, cols = 2, mat = [7, 8, 9, 10 :: int]\<rparr> i i
                 = Inr (d ! i)))"
  using diag_vec_main_diagonal [of "\<lparr>rows = 2, cols = 2, mat = [7, 8, 9, 10 :: int]\<rparr>" False]
  by (simp add: storage_ok_def)

section \<open>Loops that fill a result matrix\<close>






lemma Matrix_fill_0 [simp]: "Matrix_fill 0 0 v = \<lparr>rows = 0, cols = 0, mat = []\<rparr>"
  by (simp add: Matrix_fill_def)
















section \<open>Addition with broadcasting\<close>


lemma transform_unary_value:
  "length xs \<le> length out \<Longrightarrow>
   transform_unary f xs out = Inr (map f xs @ drop (length xs) out)"
  by (induction f xs out rule: transform_unary.induct) simp_all






lemma op_plus_no_case:
  assumes "\<not> (rows A = rows B \<and> cols A = cols B)"
    "\<not> (rows B = 1 \<and> cols B = cols A)" "\<not> (rows A = 1 \<and> cols A = cols B)"
  shows "op_plus nd A B = (if nd then Inr (Matrix_fill 0 0 0) else Inl AssertionFailure)"
proof -
  have "op_plus nd A B = then_do (assert_c nd False) (\<lambda>_. Inr (Matrix_fill 0 0 0))"
    unfolding op_plus_def by (simp only: assms if_False)
  then show ?thesis by (simp add: assert_c_def)
qed






text \<open>
  Claim C4, as the code has it. For matrices whose shapes match none of the three
  cases, \<open>A + B\<close> stops at the failed assertion when assertions are compiled in; compiled
  with \<^verbatim>\<open>NDEBUG\<close> it returns the \<open>0 \<times> 0\<close> matrix.
\<close>

theorem op_plus_unsupported_shapes:
  fixes A B :: "('a::{zero,plus}) Matrix"
  assumes "\<not> (rows A = rows B \<and> cols A = cols B)"
    and "\<not> (rows B = 1 \<and> cols B = cols A)"
    and "\<not> (rows A = 1 \<and> cols A = cols B)"
  shows "op_plus False A B = Inl AssertionFailure \<and>
         op_plus True A B = Inr \<lparr>rows = 0, cols = 0, mat = []\<rparr>"
  using op_plus_no_case [OF assms, of False] op_plus_no_case [OF assms, of True]
  by (simp add: Matrix_fill_def)

theorem op_plus_unsupported_shapes_witness:
  "\<not> (rows \<lparr>rows = 2, cols = 2, mat = [1, 2, 3, 4 :: int]\<rparr> = rows \<lparr>rows = 3, cols = 1, mat = [5, 6, 7 :: int]\<rparr> \<and>
      cols \<lparr>rows = 2, cols = 2, mat = [1, 2, 3, 4 :: int]\<rparr> = cols \<lparr>rows = 3, cols = 1, mat = [5, 6, 7 :: int]\<rparr>) \<and>
   op_plus False \<lparr>rows = 2, cols = 2, mat = [1, 2, 3, 4 :: int]\<rparr>
     \<lparr>rows = 3, cols = 1, mat = [5, 6, 7]\<rparr> = Inl AssertionFailure"
  using op_plus_unsupported_shapes
    [of "\<lparr>rows = 2, cols = 2, mat = [1, 2, 3, 4 :: int]\<rparr>" "\<lparr>rows = 3, cols = 1, mat = [5, 6, 7 :: int]\<rparr>"]
  by simp

text \<open>
  The claim as the specification states it (the sum of unsupported shapes always stops
  and never returns a degenerate matrix) fails when assertions are compiled out: a
  \<open>2 \<times> 2\<close> matrix plus a \<open>3 \<times> 1\<close> matrix is then the \<open>0 \<times> 0\<close> matrix.
\<close>

theorem op_plus_unsupported_shapes_counterexample:
  "op_plus True \<lparr>rows = 2, cols = 2, mat = [1, 2, 3, 4 :: int]\<rparr>
     \<lparr>rows = 3, cols = 1, mat = [5, 6, 7]\<rparr> = Inr \<lparr>rows = 0, cols = 0, mat = []\<rparr>"
  by (simp add: op_plus_def assert_c_def Matrix_fill_def)

section \<open>Subtraction undoes addition\<close>






section \<open>The matrix product\<close>

lemma inner_product_0 [simp]: "inner_product a b i j 0 = 0"
  by (simp add: inner_product_def)

lemma inner_product_Suc:
  "inner_product a b i j (Suc n) =
   inner_product a b i j n + mat a ! (i * cols a + n) * mat b ! (n * cols b + j)"
  by (simp add: inner_product_def)



lemma inner_product_sum:
  fixes a b :: "('a::semiring_0) Matrix"
  shows "inner_product a b i j n = (\<Sum>k<n. mat a ! (i * cols a + k) * mat b ! (k * cols b + j))"
  by (induction n) (simp_all add: inner_product_Suc add.commute)






section \<open>The non-const members\<close>

lemma for_loop_preserves:
  assumes "for_loop ks body s = Inr t" and "P s"
    and "\<And>k u u'. P u \<Longrightarrow> body k u = Inr u' \<Longrightarrow> P u'"
  shows "P t"
  using assms(1,2)
proof (induction ks arbitrary: s)
  case Nil
  then show ?case by simp
next
  case (Cons k ks)
  from Cons.prems(1) obtain u where u: "body k s = Inr u" "for_loop ks body u = Inr t"
    by (auto simp: then_do_def split: sum.splits)
  from assms(3) [OF Cons.prems(2) u(1)] have "P u" .
  with Cons.IH u(2) show ?case by blast
qed

lemma diag_vec_frame:
  assumes "diag_vec nd m = Inr (m', d)"
  shows "m' = m"
proof -
  have "fst (m', d) = m"
    by (rule for_loop_preserves [where P = "\<lambda>u. fst u = m", OF assms [unfolded diag_vec_def Let_def]])
      (auto simp: then_do_def split: sum.splits)
  then show ?thesis by simp
qed

lemma op_times_vec_frame:
  assumes "op_times_vec nd m rhs = Inr (m', v)"
  shows "m' = m"
proof -
  define inner where "inner = (\<lambda>i j (self :: 'a Matrix, sum).
                    then_do (operator_call nd self i j) (\<lambda>k.
                    then_do (vec_get (mat self) k) (\<lambda>a.
                    then_do (vec_get rhs j) (\<lambda>b. Inr (self, sum + a * b)))))"
  define outer where "outer = (\<lambda>i (self :: 'a Matrix, result).
            then_do
              (for_loop [0..<cols self] (inner i) (self, 0))
              (\<lambda>(self, sum).
                 then_do (vec_set result i sum) (\<lambda>result'. Inr (self, result'))))"
  have inner: "fst t = self"
    if "for_loop ks (inner i) (self, s) = Inr t" for ks i self s t
    by (rule for_loop_preserves [where P = "\<lambda>u. fst u = self", OF that])
      (auto simp: inner_def then_do_def split: sum.splits)
  have outer: "fst u' = m" if u: "fst u = m" and step: "outer i u = Inr u'" for i u u'
  proof -
    obtain self res where [simp]: "u = (self, res)" by (cases u)
    from step obtain t where t: "for_loop [0..<cols self] (inner i) (self, 0) = Inr t"
      and u': "(case t of (self', s) \<Rightarrow>
                 then_do (vec_set res i s) (\<lambda>result'. Inr (self', result'))) = Inr u'"
      by (cases "for_loop [0..<cols self] (inner i) (self, 0)") (simp_all add: outer_def)
    from inner [OF t] have "fst t = self" .
    with u' have "fst u' = self"
      by (cases t) (auto simp: then_do_def split: sum.splits)
    with u show ?thesis by simp
  qed
  from assms have loop:
    "for_loop [0..<rows m] outer (m, replicate (rows m) 0) = Inr (m', v)"
  proof -
    from assms have "then_do (assert_c nd (length rhs = cols m))
        (\<lambda>_. for_loop [0..<rows m] outer (m, replicate (rows m) 0)) = Inr (m', v)"
      by (simp add: op_times_vec_def outer_def inner_def)
    then show ?thesis
      by (cases "assert_c nd (length rhs = cols m)") simp_all
  qed
  have "fst (m', v) = m"
  proof (rule for_loop_preserves [where P = "\<lambda>u. fst u = m", OF loop])
    show "fst (m, replicate (rows m) 0) = m" by simp
  next
    fix k u u' assume "fst u = m" "outer k u = Inr u'"
    then show "fst u' = m" by (rule outer)
  qed
  then show ?thesis by simp
qed

lemma op_times_vec_value:
  fixes m :: "('a::{zero,plus,times}) Matrix"
  assumes ok: "storage_ok m" and len: "length rhs = cols m"
  shows "op_times_vec nd m rhs =
         Inr (m, map (\<lambda>i. foldl (\<lambda>acc j. acc + mat m ! (i * cols m + j) * rhs ! j) 0
                             [0..<cols m]) [0..<rows m])"
proof -
  define dot where "dot = (\<lambda>i n. foldl (\<lambda>acc j. acc + mat m ! (i * cols m + j) * rhs ! j) 0 [0..<n])"
  define inner where "inner = (\<lambda>i j (self :: 'a Matrix, sum).
                    then_do (operator_call nd self i j) (\<lambda>k.
                    then_do (vec_get (mat self) k) (\<lambda>a.
                    then_do (vec_get rhs j) (\<lambda>b. Inr (self, sum + a * b)))))"
  define outer where "outer = (\<lambda>i (self :: 'a Matrix, result).
            then_do
              (for_loop [0..<cols self] (inner i) (self, 0))
              (\<lambda>(self, sum).
                 then_do (vec_set result i sum) (\<lambda>result'. Inr (self, result'))))"
  have row: "for_loop [0..<cols m] (inner i) (m, 0) = Inr (m, dot i (cols m))"
    if i: "i < rows m" for i
  proof -
    have "\<exists>t. for_loop [0..<cols m] (inner i) (m, 0) = Inr t \<and> t = (m, dot i (cols m))"
    proof (rule for_loop_rule [where I = "\<lambda>j t. t = (m, dot i j)"])
      show "(m, 0) = (m, dot i 0)" by (simp add: dot_def)
    next
      fix j t assume j: "j < cols m" and t: "t = (m, dot i j)"
      have "i * cols m + j < length (mat m)"
        using ok offset_in_range [OF i j] by (simp add: storage_ok_def)
      then show "\<exists>t'. inner i j t = Inr t' \<and> t' = (m, dot i (Suc j))"
        using i j len t
        by (simp add: inner_def operator_call_ok vec_get_def dot_def)
    qed
    then show ?thesis by simp
  qed
  define I where "I = (\<lambda>k (self, res). self = m \<and> length res = rows m \<and>
                        (\<forall>i<k. res ! i = dot i (cols m)))"
  have "\<exists>t. for_loop [0..<rows m] outer (m, replicate (rows m) 0) = Inr t \<and> I (rows m) t"
  proof (rule for_loop_rule)
    show "I 0 (m, replicate (rows m) 0)" by (simp add: I_def)
  next
    fix k t assume k: "k < rows m" and t: "I k t"
    obtain self res where [simp]: "t = (self, res)" by (cases t)
    from t have self: "self = m" and lres: "length res = rows m"
      and old: "\<forall>i<k. res ! i = dot i (cols m)" by (simp_all add: I_def)
    have "outer k t = Inr (m, res[k := dot k (cols m)])"
      using k lres by (simp add: outer_def self row vec_set_def)
    moreover have "I (Suc k) (m, res[k := dot k (cols m)])"
      using old lres k by (auto simp: I_def less_Suc_eq nth_list_update)
    ultimately show "\<exists>t'. outer k t = Inr t' \<and> I (Suc k) t'" by blast
  qed
  then obtain res where r: "for_loop [0..<rows m] outer (m, replicate (rows m) 0) = Inr (m, res)"
    and lres: "length res = rows m" and el: "\<forall>i<rows m. res ! i = dot i (cols m)"
    by (auto simp: I_def)
  have "res = map (\<lambda>i. dot i (cols m)) [0..<rows m]"
    using lres el by (intro nth_equalityI) simp_all
  with r show ?thesis
    using len by (simp add: op_times_vec_def assert_c_def outer_def inner_def dot_def)
qed

text \<open>
  Claim C10. \<open>diag_vec\<close> and the matrix-vector product are non-const members, yet
  whenever either returns, the object is as it was before the call (same rows, cols and
  storage); and on a matrix whose storage holds \<open>rows * cols\<close> elements (and, for the
  product, a vector of \<open>cols\<close> elements) each of them does return.
\<close>

theorem nonconst_members_leave_object:
  fixes m :: "('a::{zero,plus,times}) Matrix"
  shows "(\<forall>m' d. diag_vec nd m = Inr (m', d) \<longrightarrow> m' = m) \<and>
         (\<forall>m' v. op_times_vec nd m rhs = Inr (m', v) \<longrightarrow> m' = m) \<and>
         (storage_ok m \<longrightarrow> (\<exists>d. diag_vec nd m = Inr (m, d))) \<and>
         (storage_ok m \<and> length rhs = cols m \<longrightarrow> (\<exists>v. op_times_vec nd m rhs = Inr (m, v)))"
proof (intro conjI allI impI)
  fix m' d assume "diag_vec nd m = Inr (m', d)"
  then show "m' = m" by (rule diag_vec_frame)
next
  fix m' v assume "op_times_vec nd m rhs = Inr (m', v)"
  then show "m' = m" by (rule op_times_vec_frame)
next
  assume "storage_ok m"
  then show "\<exists>d. diag_vec nd m = Inr (m, d)"
    by (simp add: diag_vec_value)
next
  assume "storage_ok m \<and> length rhs = cols m"
  then show "\<exists>v. op_times_vec nd m rhs = Inr (m, v)"
    by (simp add: op_times_vec_value)
qed

theorem nonconst_members_leave_object_witness:
  "storage_ok \<lparr>rows = 2, cols = 2, mat = [1, 2, 3, 4 :: int]\<rparr> \<and>
   length [1, 1 :: int] = cols \<lparr>rows = 2, cols = 2, mat = [1, 2, 3, 4 :: int]\<rparr> \<and>
   (\<exists>d. diag_vec False \<lparr>rows = 2, cols = 2, mat = [1, 2, 3, 4 :: int]\<rparr>
          = Inr (\<lparr>rows = 2, cols = 2, mat = [1, 2, 3, 4]\<rparr>, d)) \<and>
   (\<exists>v. op_times_vec False \<lparr>rows = 2, cols = 2, mat = [1, 2, 3, 4 :: int]\<rparr> [1, 1]
          = Inr (\<lparr>rows = 2, cols = 2, mat = [1, 2, 3, 4]\<rparr>, v))"
  using nonconst_members_leave_object
    [of False "\<lparr>rows = 2, cols = 2, mat = [1, 2, 3, 4 :: int]\<rparr>" "[1, 1]"]
  by (simp add: storage_ok_def)

section \<open>Move and assignment\<close>

lemma Matrix_move_source:
  "snd (Matrix_move rhs) = \<lparr>rows = 0, cols = 0, mat = []\<rparr>"
  by (simp add: Matrix_move_def)

lemma move_assign_source:
  "this \<noteq> rhs \<Longrightarrow> move_assign st this rhs rhs = \<lparr>rows = 0, cols = 0, mat = []\<rparr>"
  by (simp add: move_assign_def Let_def)





text \<open>
  Claim C7. After a matrix has been the source of a move construction, or of a move
  assignment (the source and the target being two objects; the assignment of an object
  to itself is the other half of the claim), it is left in the valid degenerate state
  \<open>rows = 0\<close>, \<open>cols = 0\<close> (with empty storage); and assigning an object to itself, by
  copy or by move, leaves every object unchanged.
\<close>

theorem move_and_self_assignment:
  "rows (snd (Matrix_move a)) = 0 \<and> cols (snd (Matrix_move a)) = 0 \<and>
   storage_ok (snd (Matrix_move a)) \<and>
   (this \<noteq> rhs \<longrightarrow>
      rows (move_assign st this rhs rhs) = 0 \<and> cols (move_assign st this rhs rhs) = 0 \<and>
      storage_ok (move_assign st this rhs rhs)) \<and>
   copy_assign st p p = st \<and> move_assign st p p = st"
  by (simp add: Matrix_move_source move_assign_source storage_ok_def copy_assign_def
      move_assign_def)

theorem move_and_self_assignment_witness:
  "(0::nat) \<noteq> 1 \<and>
   rows (move_assign ((\<lambda>_. \<lparr>rows = 0, cols = 0, mat = []\<rparr>)
                       (1 := \<lparr>rows = 2, cols = 2, mat = [1, 2, 3, 4 :: int]\<rparr>)) 0 1 1) = 0 \<and>
   cols (move_assign ((\<lambda>_. \<lparr>rows = 0, cols = 0, mat = []\<rparr>)
                       (1 := \<lparr>rows = 2, cols = 2, mat = [1, 2, 3, 4 :: int]\<rparr>)) 0 1 1) = 0"
  using move_and_self_assignment
    [of "\<lparr>rows = 2, cols = 2, mat = [1, 2, 3, 4 :: int]\<rparr>" 0 1
        "(\<lambda>_. \<lparr>rows = 0, cols = 0, mat = []\<rparr>)
           (1 := \<lparr>rows = 2, cols = 2, mat = [1, 2, 3, 4 :: int]\<rparr>)"]
  by simp

section \<open>The storage invariant\<close>

lemma same_shape_refl [simp]: "same_shape R R"
  by (simp add: same_shape_def)



































section \<open>Random initialization\<close>

lemma draws_Suc:
  "fst (draws draw a b (Suc n) gen) =
     fst (draw a b gen) # fst (draws draw a b n (snd (draw a b gen)))"
  "snd (draws draw a b (Suc n) gen) = snd (draws draw a b n (snd (draw a b gen)))"
  by (simp_all add: Let_def case_prod_beta)


lemma draws_length [simp]: "length (fst (draws draw a b n gen)) = n"
  by (induction n arbitrary: gen) (simp_all add: draws_Suc del: draws.simps(2))










end
